theory Spec2Isabelle
  imports Complex_Main "HOL-Library.AList"
begin

section \<open>Lookup tables on rectilinear grids: the \<open>lerp.mesh\<close> module\<close>

text \<open>
  The development follows \<open>lerp/mesh.py\<close>. A numpy \<open>float64\<close> is modelled as a \<open>real\<close>;
  an n-dimensional numpy array is its shape together with its C-ordered flat buffer.
  Python exceptions are values of \<open>pyerr\<close>, and every operation that can raise returns
  \<open>pyerr + 'a\<close> with \<open>Inl\<close> for the exception.
\<close>

subsection \<open>Values, arrays and exceptions\<close>

datatype pyerr =
    AssertionError string
  | KeyError string
  | AttributeError string
  | IndexError
  | ValueError
  | TypeError

datatype ndarray = NDArray (shape: "nat list") (flat: "real list")

text \<open>A query argument is a bare number (no \<open>__len__\<close>) or an array.\<close>

datatype pyval = Scalar real | Arr ndarray

text \<open>\<open>len(a)\<close>: the extent of the first axis; a 0-d array has no length.\<close>

definition pylen :: "ndarray \<Rightarrow> pyerr + nat" where
  "pylen a = (case shape a of [] \<Rightarrow> Inl TypeError | n # _ \<Rightarrow> Inr n)"

text \<open>\<open>a.size\<close>: the number of elements.\<close>

definition size_nd :: "ndarray \<Rightarrow> nat" where
  "size_nd a = prod_list (shape a)"

text \<open>\<open>len(args[_k]) if "__len__" in dir(args[_k]) else 1\<close>\<close>

definition arg_len :: "pyval \<Rightarrow> pyerr + nat" where
  "arg_len v = (case v of Scalar _ \<Rightarrow> Inr 1 | Arr a \<Rightarrow> pylen a)"

fun arg_lens :: "pyval list \<Rightarrow> pyerr + nat list" where
  "arg_lens [] = Inr []"
| "arg_lens (v # vs) =
     (case arg_len v of
        Inl e \<Rightarrow> Inl e
      | Inr n \<Rightarrow> (case arg_lens vs of Inl e \<Rightarrow> Inl e | Inr ns \<Rightarrow> Inr (n # ns)))"

text \<open>
  \<open>np.asarray(a, np.float64) if "__len__" in dir(a) else np.ones((N,), np.float64) * a\<close>:
  an array is passed through as it is, a bare number is replicated \<open>N\<close> times.
\<close>

definition as_float_array :: "nat \<Rightarrow> pyval \<Rightarrow> ndarray" where
  "as_float_array N v = (case v of Arr a \<Rightarrow> a | Scalar x \<Rightarrow> NDArray [N] (replicate N x))"

text \<open>\<open>np.ones_like(a)\<close>\<close>

definition ones_like :: "ndarray \<Rightarrow> ndarray" where
  "ones_like a = NDArray (shape a) (replicate (size_nd a) 1)"

text \<open>\<open>values[0] if len(values) == 1 else values\<close>\<close>

definition first_if_single :: "ndarray \<Rightarrow> pyerr + pyval" where
  "first_if_single values =
     (case shape values of
        [] \<Rightarrow> Inl TypeError
      | n # rest \<Rightarrow>
          if n = 1 then
            (case rest of
               [] \<Rightarrow> Inr (Scalar (hd (flat values)))
             | _ # _ \<Rightarrow> Inr (Arr (NDArray rest (take (prod_list rest) (flat values)))))
          else Inr (Arr values))"

subsection \<open>Method enumerations\<close>

datatype INTERP_METH = I_hold | I_nearest | I_linear | I_akima | I_fritsch_butland | I_steffen

datatype EXTRAP_METH = E_hold | E_linear

text \<open>\<open>INTERP_METH[name]\<close> and \<open>EXTRAP_METH[name]\<close>: lookup by member name.\<close>

definition INTERP_METH_getitem :: "string \<Rightarrow> pyerr + INTERP_METH" where
  "INTERP_METH_getitem s =
     (if s = ''hold'' then Inr I_hold
      else if s = ''nearest'' then Inr I_nearest
      else if s = ''linear'' then Inr I_linear
      else if s = ''akima'' then Inr I_akima
      else if s = ''fritsch_butland'' then Inr I_fritsch_butland
      else if s = ''steffen'' then Inr I_steffen
      else Inl (KeyError s))"

definition EXTRAP_METH_getitem :: "string \<Rightarrow> pyerr + EXTRAP_METH" where
  "EXTRAP_METH_getitem s =
     (if s = ''hold'' then Inr E_hold
      else if s = ''linear'' then Inr E_linear
      else Inl (KeyError s))"

subsection \<open>The mesh and the table handed to the native library\<close>

record mesh_options =
  extrapolate :: bool
  step :: bool
  deepcopy :: bool

record Mesh =
  dims :: "string list"
  coords :: "(string \<times> real list) list"
  data :: ndarray
  label :: "string option"
  unit :: "string option"
  options :: mesh_options

definition ndim :: "Mesh \<Rightarrow> nat" where
  "ndim m = length (shape (data m))"

record NDTable_t =
  t_shape :: "nat list"
  t_strides :: "nat list"
  t_ndim :: nat
  t_data :: "real list"
  t_size :: nat
  t_itemsize :: nat
  t_breakpoints :: "real list list"

text \<open>Byte strides of a C-contiguous \<open>float64\<close> array.\<close>

fun c_strides :: "nat list \<Rightarrow> nat list" where
  "c_strides [] = []"
| "c_strides (n # ns) = (8 * prod_list ns) # c_strides ns"

text \<open>\<open>getattr(_mesh, elt) for elt in _mesh.dims\<close>\<close>

fun breakpoints_of :: "(string \<times> real list) list \<Rightarrow> string list \<Rightarrow> pyerr + real list list" where
  "breakpoints_of cs [] = Inr []"
| "breakpoints_of cs (d # ds) =
     (case map_of cs d of
        None \<Rightarrow> Inl (AttributeError d)
      | Some b \<Rightarrow> (case breakpoints_of cs ds of Inl e \<Rightarrow> Inl e | Inr bs \<Rightarrow> Inr (b # bs)))"

text \<open>
  \<open>NDTable_t(data=self)\<close>: the structure stores the addresses of
  \<open>self.data.astype(np.float64)\<close> and of the coordinate arrays of the dimensions, with
  the shape and strides of the data. The table below holds the contents of these buffers
  when the structure is built. How long the buffers live, and a layout of the data other
  than C order, are outside the model: an array here is always its C-ordered buffer.
  A dimension is read with \<open>getattr\<close>; the model looks its name up among the
  coordinates, which is what \<open>getattr\<close> gives for a name that is not also an attribute
  of the array class. The \<open>c_int\<close> fields are natural numbers, exact below \<open>2^31\<close>.
\<close>

definition NDTable_t_init :: "Mesh \<Rightarrow> pyerr + NDTable_t" where
  "NDTable_t_init m =
     (case breakpoints_of (coords m) (dims m) of
        Inl e \<Rightarrow> Inl e
      | Inr bs \<Rightarrow>
          Inr \<lparr>t_shape = shape (data m),
               t_strides = c_strides (shape (data m)),
               t_ndim = length (shape (data m)),
               t_data = flat (data m),
               t_size = size_nd (data m),
               t_itemsize = 8,
               t_breakpoints = bs\<rparr>)"

subsection \<open>The native routines\<close>

text \<open>
  \<open>evaluate_interpolation\<close> and \<open>evaluate_derivative\<close> are loaded from the shared
  library \<open>libNDTable\<close>; the functions below take them as parameters. A routine receives
  the table, one coordinate buffer per dimension, the methods and the number of values
  to produce; it returns its status code and what it wrote into the preallocated
  output buffer, as a function of the flat index. The number of dimensions and the
  number of values are passed as \<open>c_int\<close>; they are natural numbers here, exact
  below \<open>2^31\<close>.
\<close>

record request =
  table :: NDTable_t
  params :: "ndarray list"
  r_ndim :: nat
  interp_meth :: INTERP_METH
  extrap_meth :: EXTRAP_METH
  nvalues :: nat

type_synonym engine = "request \<Rightarrow> int \<times> (nat \<Rightarrow> real)"

type_synonym dengine = "request \<Rightarrow> ndarray list \<Rightarrow> int \<times> (nat \<Rightarrow> real)"

subsection \<open>Binding and conditioning the query arguments\<close>

text \<open>\<open>len(set(self.dims) & set(kwargs))\<close>\<close>

definition count_named :: "string list \<Rightarrow> (string \<rightharpoonup> pyval) \<Rightarrow> nat" where
  "count_named ds kwargs = length (filter (\<lambda>d. kwargs d \<noteq> None) (remdups ds))"

text \<open>
  \<open>{_x : kwargs[_x] if _x in kwargs else points.pop(0) for _x in self.dims}\<close>:
  the dictionary is an association list in insertion order.
\<close>

fun bind_args ::
  "string list \<Rightarrow> (string \<rightharpoonup> pyval) \<Rightarrow> pyval list \<Rightarrow> (string \<times> pyval) list
     \<Rightarrow> pyerr + (string \<times> pyval) list" where
  "bind_args [] kwargs points acc = Inr acc"
| "bind_args (d # ds) kwargs points acc =
     (case kwargs d of
        Some v \<Rightarrow> bind_args ds kwargs points (AList.update d v acc)
      | None \<Rightarrow>
          (case points of
             [] \<Rightarrow> Inl IndexError
           | p # ps \<Rightarrow> bind_args ds kwargs ps (AList.update d p acc)))"

text \<open>\<open>[... args[_x] ... for _x in self.dims]\<close> with the scalars replicated.\<close>

fun conditioned :: "nat \<Rightarrow> (string \<times> pyval) list \<Rightarrow> string list \<Rightarrow> pyerr + ndarray list" where
  "conditioned N args [] = Inr []"
| "conditioned N args (d # ds) =
     (case map_of args d of
        None \<Rightarrow> Inl (KeyError d)
      | Some v \<Rightarrow>
          (case conditioned N args ds of
             Inl e \<Rightarrow> Inl e
           | Inr as \<Rightarrow> Inr (as_float_array N v # as)))"

text \<open>
  The common prologue of \<open>interpolation\<close> and \<open>derivate\<close>: the arity assertion, the
  binding of positional and named arguments, the length check and the conversion to
  \<open>float64\<close> arrays.
\<close>

definition query_args :: "Mesh \<Rightarrow> pyval list \<Rightarrow> (string \<rightharpoonup> pyval) \<Rightarrow> pyerr + ndarray list" where
  "query_args m points kwargs =
     (if count_named (dims m) kwargs + length points \<noteq> ndim m then
        Inl (AssertionError ''Not enough dimensions for interpolation'')
      else
        (case bind_args (dims m) kwargs points [] of
           Inl e \<Rightarrow> Inl e
         | Inr args \<Rightarrow>
             (case arg_lens (map snd args) of
                Inl e \<Rightarrow> Inl e
              | Inr ds \<Rightarrow>
                  if ds = [] then Inl ValueError
                  else if \<not> list_all (\<lambda>d. d = Max (set ds) \<or> d = 1) ds then
                    Inl (AssertionError ''probleme'')
                  else conditioned (Max (set ds)) args (dims m))))"

subsection \<open>Interpolation, derivative and the callable interface\<close>

text \<open>
  \<open>interpolation\<close> up to the native call (lines 267 to 306): the arguments handed to
  \<open>evaluate_interpolation\<close>. The output buffer \<open>values\<close> has the shape of the first
  conditioned argument, and its size is the number of values requested.
\<close>

definition interpolation_request ::
  "Mesh \<Rightarrow> pyval list \<Rightarrow> string \<Rightarrow> string \<Rightarrow> (string \<rightharpoonup> pyval) \<Rightarrow> pyerr + request" where
  "interpolation_request m points interp extrap kwargs =
     (case query_args m points kwargs of
        Inl e \<Rightarrow> Inl e
      | Inr args \<Rightarrow>
     (case args of
        [] \<Rightarrow> Inl IndexError
      | a0 # _ \<Rightarrow>
     (case NDTable_t_init m of
        Inl e \<Rightarrow> Inl e
      | Inr t \<Rightarrow>
     (case INTERP_METH_getitem interp of
        Inl e \<Rightarrow> Inl e
      | Inr im \<Rightarrow>
     (case EXTRAP_METH_getitem extrap of
        Inl e \<Rightarrow> Inl e
      | Inr em \<Rightarrow>
          Inr \<lparr>table = t, params = args, r_ndim = ndim m,
               interp_meth = im, extrap_meth = em, nvalues = size_nd a0\<rparr>)))))"

text \<open>
  After the native call (lines 307 to 309): the status assertion, then
  \<open>values[0] if len(values) == 1 else values\<close> on the filled buffer.
\<close>

definition returned :: "ndarray \<Rightarrow> int \<times> (nat \<Rightarrow> real) \<Rightarrow> pyerr + pyval" where
  "returned a0 res =
     (if fst res \<noteq> 0 then Inl (AssertionError ''An error occurred during interpolation'')
      else first_if_single (NDArray (shape a0) (map (snd res) [0..<size_nd a0])))"

definition interpolation ::
  "engine \<Rightarrow> Mesh \<Rightarrow> pyval list \<Rightarrow> string \<Rightarrow> string \<Rightarrow> (string \<rightharpoonup> pyval) \<Rightarrow> pyerr + pyval" where
  "interpolation evaluate_interpolation m points interp extrap kwargs =
     (case interpolation_request m points interp extrap kwargs of
        Inl e \<Rightarrow> Inl e
      | Inr rq \<Rightarrow> returned (hd (params rq)) (evaluate_interpolation rq))"

text \<open>
  \<open>derivate\<close>: the same request, with \<open>dxi = [np.ones_like(_x) for _x in args]\<close> as the
  step arrays of \<open>evaluate_derivative\<close>.
\<close>

definition derivate_request ::
  "Mesh \<Rightarrow> pyval list \<Rightarrow> string \<Rightarrow> string \<Rightarrow> (string \<rightharpoonup> pyval)
     \<Rightarrow> pyerr + request \<times> ndarray list" where
  "derivate_request m points interp extrap kwargs =
     (case interpolation_request m points interp extrap kwargs of
        Inl e \<Rightarrow> Inl e
      | Inr rq \<Rightarrow> Inr (rq, map ones_like (params rq)))"

definition derivate ::
  "dengine \<Rightarrow> Mesh \<Rightarrow> pyval list \<Rightarrow> string \<Rightarrow> string \<Rightarrow> (string \<rightharpoonup> pyval) \<Rightarrow> pyerr + pyval" where
  "derivate evaluate_derivative m points interp extrap kwargs =
     (case derivate_request m points interp extrap kwargs of
        Inl e \<Rightarrow> Inl e
      | Inr (rq, dxi) \<Rightarrow> returned (hd (params rq)) (evaluate_derivative rq dxi))"

text \<open>
  The keyword arguments of a call: \<open>interp\<close> and \<open>extrap\<close> when given, and the
  coordinate arguments passed by dimension name.
\<close>

record call_kwargs =
  kw_interp :: "string option"
  kw_extrap :: "string option"
  kw_named :: "string \<rightharpoonup> pyval"

text \<open>
  \<open>self.interpolation(*pargs, **kwargs)\<close> against the signature
  \<open>interpolation(self, *points, interp='linear', extrap='hold', **kwargs)\<close>.
\<close>

definition interpolation_kw :: "engine \<Rightarrow> Mesh \<Rightarrow> pyval list \<Rightarrow> call_kwargs \<Rightarrow> pyerr + pyval" where
  "interpolation_kw eng m pargs kwargs =
     interpolation eng m pargs
       (case kw_interp kwargs of None \<Rightarrow> ''linear'' | Some i \<Rightarrow> i)
       (case kw_extrap kwargs of None \<Rightarrow> ''hold'' | Some e \<Rightarrow> e)
       (kw_named kwargs)"

text \<open>\<open>Mesh.__call__\<close>\<close>

definition Mesh_call :: "engine \<Rightarrow> Mesh \<Rightarrow> pyval list \<Rightarrow> call_kwargs \<Rightarrow> pyerr + pyval" where
  "Mesh_call eng m pargs kwargs =
     (if step (options m) then
        interpolation_kw eng m pargs
          (kwargs\<lparr>kw_interp := Some ''hold'', kw_extrap := Some ''hold''\<rparr>)
      else if extrapolate (options m) \<and> kw_extrap kwargs = None then
        interpolation_kw eng m pargs (kwargs\<lparr>kw_extrap := Some ''linear''\<rparr>)
      else interpolation_kw eng m pargs kwargs)"

subsection \<open>Construction and resampling\<close>

definition AXES :: "string list" where
  "AXES = [''x'', ''y'', ''z'', ''v'', ''w'']"

definition default_options :: mesh_options where
  "default_options = \<lparr>extrapolate = True, step = False, deepcopy = False\<rparr>"

text \<open>
  The constructor of the base class, \<open>xarray.DataArray\<close>, is library code: it rejects
  keywords it does not know, fills the coordinate shape with a scalar datum, and rejects
  an array whose shape is not the coordinate lengths in dimension order. The dimensions
  are the keys of the coordinate dictionary. The keywords that reach it from
  \<open>Mesh_init\<close> are axis names outside \<open>AXES\<close>; an axis named like one of its own
  parameters (\<open>name\<close>, \<open>attrs\<close>) is not told apart from the others.
\<close>

definition DataArray_init ::
  "pyval \<Rightarrow> (string \<times> real list) list \<Rightarrow> string option \<Rightarrow> string option
     \<Rightarrow> (string \<times> real list) list \<Rightarrow> pyerr + Mesh" where
  "DataArray_init dat cs lab un rest =
     (let shp = map (\<lambda>c. length (snd c)) cs;
          mk = (\<lambda>a. \<lparr>dims = map fst cs, coords = cs, data = a,
                      label = lab, unit = un, options = default_options\<rparr>)
      in if rest \<noteq> [] then Inl TypeError
         else
           (case dat of
              Scalar v \<Rightarrow> Inr (mk (NDArray shp (replicate (prod_list shp) v)))
            | Arr a \<Rightarrow> if shape a \<noteq> shp then Inl ValueError else Inr (mk a)))"

text \<open>
  \<open>Mesh.__init__\<close> for the calls \<open>Mesh(*axes, data, label=..., unit=..., **named)\<close>:
  positional axes take the names of \<open>AXES\<close> in order, then the named axes that belong
  to \<open>AXES\<close> are moved into the coordinates in the order of \<open>AXES\<close>; what remains of the
  keywords goes to the base class. The keywords \<open>coords\<close>, \<open>data\<close> and \<open>fastpath\<close>,
  which the constructor treats on their own, are not among the named axes here.
\<close>

definition Mesh_init ::
  "real list list \<Rightarrow> pyval \<Rightarrow> string option \<Rightarrow> string option
     \<Rightarrow> (string \<times> real list) list \<Rightarrow> pyerr + Mesh" where
  "Mesh_init axes dat lab un named =
     (let positional = fold (\<lambda>kv acc. AList.update (fst kv) (snd kv) acc) (zip AXES axes) [];
          cs = fold (\<lambda>d acc. case map_of named d of
                                None \<Rightarrow> acc
                              | Some c \<Rightarrow> AList.update d c acc) AXES positional;
          rest = filter (\<lambda>kv. fst kv \<notin> set AXES) named
      in DataArray_init dat cs lab un rest)"

text \<open>
  The argument dictionary of \<open>resample\<close>: a named coordinate array, else the next
  positional one, else (\<open>IndexError\<close> from \<open>pop\<close>) the mesh's own coordinates.
\<close>

fun resample_args ::
  "Mesh \<Rightarrow> string list \<Rightarrow> (string \<rightharpoonup> real list) \<Rightarrow> real list list
     \<Rightarrow> (string \<times> real list) list \<Rightarrow> pyerr + (string \<times> real list) list" where
  "resample_args m [] kwargs points acc = Inr acc"
| "resample_args m (d # ds) kwargs points acc =
     (case kwargs d of
        Some c \<Rightarrow> resample_args m ds kwargs points (AList.update d c acc)
      | None \<Rightarrow>
          (case points of
             p # ps \<Rightarrow> resample_args m ds kwargs ps (AList.update d p acc)
           | [] \<Rightarrow>
               (case map_of (coords m) d of
                  None \<Rightarrow> Inl (KeyError d)
                | Some c \<Rightarrow> resample_args m ds kwargs [] (AList.update d c acc))))"

text \<open>
  \<open>np.meshgrid(*xs, indexing='ij')\<close> on one-dimensional arrays: array \<open>d\<close> of the result
  has the shape of all lengths and holds, at every multi-index in C order, the entry of
  \<open>xs[d]\<close> at that index's component \<open>d\<close>.
\<close>

definition meshgrid_ij :: "real list list \<Rightarrow> ndarray list" where
  "meshgrid_ij xs =
     map (\<lambda>d. NDArray (map length xs) (map (\<lambda>p. p ! d) (product_lists xs))) [0..<length xs]"

definition resample ::
  "engine \<Rightarrow> Mesh \<Rightarrow> real list list \<Rightarrow> string \<Rightarrow> string \<Rightarrow> (string \<rightharpoonup> real list)
     \<Rightarrow> pyerr + Mesh" where
  "resample eng m points interp extrap kwargs =
     (case resample_args m (dims m) kwargs points [] of
        Inl e \<Rightarrow> Inl e
      | Inr args \<Rightarrow>
          (case interpolation eng m (map Arr (meshgrid_ij (map snd args))) interp extrap Map.empty of
             Inl e \<Rightarrow> Inl e
           | Inr nv \<Rightarrow> Mesh_init [] nv None None args))"

subsection \<open>The evaluation routine, from its specification\<close>

text \<open>
  Modelled from the spec: the native routine \<open>evaluate_interpolation\<close> of \<open>libNDTable\<close>
  (\<open>lerp/C/src/interpolation.c\<close>, \<open>NDTable.c\<close>) is not among the sources. The model follows
  the lookup engine of the specification for the methods it defines by formula
  (\<open>hold\<close>, \<open>nearest\<close>, \<open>linear\<close>); the cubic families, whose slope estimates the
  specification only names, are left to a parameter. Dimensions with a single
  breakpoint, where the specification yields NaN, are outside the model.
\<close>

datatype bracket = Below | Inside nat | Above

text \<open>
  Step 1: the index \<open>i\<close> with \<open>bp[i] \<le> x < bp[i+1]\<close>, or the point lies below index 0,
  or at or above the last index.
\<close>

definition find_index :: "real list \<Rightarrow> real \<Rightarrow> bracket" where
  "find_index bp x =
     (if bp = [] \<or> x < hd bp then Below
      else if last bp \<le> x then Above
      else Inside (length (takeWhile (\<lambda>b. b \<le> x) bp) - 1))"

text \<open>The fractional position \<open>t = (x - bp[i]) / (bp[i+1] - bp[i])\<close>.\<close>

definition fraction :: "real list \<Rightarrow> nat \<Rightarrow> real \<Rightarrow> real" where
  "fraction bp i x = (x - bp ! i) / (bp ! (i + 1) - bp ! i)"

text \<open>
  Step 2: out of range, \<open>hold\<close> clamps the coordinate to the nearest boundary value
  before interpolating, and \<open>linear\<close> applies the formula on the outermost interval.
\<close>

definition locate :: "EXTRAP_METH \<Rightarrow> real list \<Rightarrow> real \<Rightarrow> nat \<times> real" where
  "locate extrap bp x =
     (case find_index bp x of
        Inside i \<Rightarrow> (i, fraction bp i x)
      | Below \<Rightarrow>
          (case extrap of
             E_hold \<Rightarrow> (0, fraction bp 0 (hd bp))
           | E_linear \<Rightarrow> (0, fraction bp 0 x))
      | Above \<Rightarrow>
          (case extrap of
             E_hold \<Rightarrow> (length bp - 2, fraction bp (length bp - 2) (last bp))
           | E_linear \<Rightarrow> (length bp - 2, fraction bp (length bp - 2) x)))"

text \<open>
  Step 3: the weight of the upper corner in one dimension. \<open>hold\<close> takes the lower
  corner of the cell, which at or beyond the last breakpoint is the last sample;
  \<open>nearest\<close> takes the closer corner, ties toward the lower index; \<open>linear\<close> blends.
\<close>

definition corner_weight :: "INTERP_METH \<Rightarrow> real \<Rightarrow> real" where
  "corner_weight im t =
     (case im of
        I_hold \<Rightarrow> (if t < 1 then 0 else 1)
      | I_nearest \<Rightarrow> (if t \<le> 1 / 2 then 0 else 1)
      | _ \<Rightarrow> t)"

text \<open>
  The blend of the \<open>2^ndim\<close> corner values, each weighted by the product over the
  dimensions of \<open>w\<close> or \<open>1 - w\<close>; strides count elements.
\<close>

fun blend :: "real list \<Rightarrow> nat list \<Rightarrow> (nat \<times> real) list \<Rightarrow> nat \<Rightarrow> real" where
  "blend dat (s # ss) ((i, w) # ps) off =
     (1 - w) * blend dat ss ps (off + i * s) + w * blend dat ss ps (off + (i + 1) * s)"
| "blend dat _ _ off = dat ! off"

definition is_cubic :: "INTERP_METH \<Rightarrow> bool" where
  "is_cubic im = (im = I_akima \<or> im = I_fritsch_butland \<or> im = I_steffen)"

definition evaluate_interpolation_spec :: "engine \<Rightarrow> engine" where
  "evaluate_interpolation_spec cubic rq =
     (let t = table rq in
      if \<not> (r_ndim rq = t_ndim t \<and> length (params rq) = t_ndim t) then (1, \<lambda>_. 0)
      else if is_cubic (interp_meth rq) then cubic rq
      else
        (0, \<lambda>j. blend (t_data t) (map (\<lambda>s. s div t_itemsize t) (t_strides t))
                   (map (\<lambda>d. case locate (extrap_meth rq) (t_breakpoints t ! d)
                                      (flat (params rq ! d) ! j) of
                                 (i, f) \<Rightarrow> (i, corner_weight (interp_meth rq) f))
                        [0..<t_ndim t])
                   0))"

subsection \<open>Example grids\<close>

text \<open>Breakpoints \<open>[0,1,2,3]\<close> with the samples \<open>[0,1,4,9]\<close> of the square.\<close>

definition grid1 :: Mesh where
  "grid1 = \<lparr>dims = [''x''], coords = [(''x'', [0, 1, 2, 3])],
            data = NDArray [4] [0, 1, 4, 9],
            label = None, unit = None, options = default_options\<rparr>"

text \<open>Breakpoints \<open>x = [0,1]\<close>, \<open>y = [0,1]\<close> with the data \<open>[[0,1],[2,3]]\<close>.\<close>

definition grid2 :: Mesh where
  "grid2 = \<lparr>dims = [''x'', ''y''], coords = [(''x'', [0, 1]), (''y'', [0, 1])],
            data = NDArray [2, 2] [0, 1, 2, 3],
            label = None, unit = None, options = default_options\<rparr>"

text \<open>A single row: \<open>x = [1]\<close>, \<open>y = [1,2,3]\<close> with the data \<open>[[10,20,30]]\<close>.\<close>

definition grid_row :: Mesh where
  "grid_row = \<lparr>dims = [''x'', ''y''], coords = [(''x'', [1]), (''y'', [1, 2, 3])],
               data = NDArray [1, 3] [10, 20, 30],
               label = None, unit = None, options = default_options\<rparr>"

text \<open>
  Dimensions in the order \<open>(y, x)\<close>, as \<open>Mesh(data, coords={'y': ..., 'x': ...})\<close> builds
  them: \<open>y = [0,1]\<close>, \<open>x = [10,20]\<close> with the data \<open>[[0,1],[2,3]]\<close>, so that the sample
  at \<open>y = 0\<close>, \<open>x = 20\<close> is 1.
\<close>

definition grid_yx :: Mesh where
  "grid_yx = \<lparr>dims = [''y'', ''x''], coords = [(''y'', [0, 1]), (''x'', [10, 20])],
              data = NDArray [2, 2] [0, 1, 2, 3],
              label = None, unit = None, options = default_options\<rparr>"

section \<open>Properties\<close>

subsection \<open>Which exception a step can raise\<close>

lemma bind_args_err: "bind_args ds kwargs points acc = Inl e \<Longrightarrow> e = IndexError"
  by (induction ds kwargs points acc rule: bind_args.induct)
     (auto split: option.splits list.splits)

lemma arg_lens_err: "arg_lens vs = Inl e \<Longrightarrow> e = TypeError"
  by (induction vs arbitrary: e)
     (auto simp: arg_len_def pylen_def split: sum.splits pyval.splits list.splits)

lemma conditioned_err: "conditioned N args ds = Inl e \<Longrightarrow> \<exists>d. e = KeyError d"
  by (induction ds arbitrary: e) (auto split: option.splits sum.splits)

lemma conditioned_length: "conditioned N args ds = Inr as \<Longrightarrow> length as = length ds"
  by (induction ds arbitrary: as) (auto split: option.splits sum.splits)

lemma breakpoints_of_err: "breakpoints_of cs ds = Inl e \<Longrightarrow> \<exists>d. e = AttributeError d"
  by (induction ds arbitrary: e) (auto split: option.splits sum.splits)

lemma NDTable_t_init_err: "NDTable_t_init m = Inl e \<Longrightarrow> \<exists>d. e = AttributeError d"
  by (auto simp: NDTable_t_init_def split: sum.splits dest: breakpoints_of_err)

lemma INTERP_METH_getitem_err: "INTERP_METH_getitem s = Inl e \<Longrightarrow> e = KeyError s"
  by (auto simp: INTERP_METH_getitem_def split: if_splits)

lemma EXTRAP_METH_getitem_err: "EXTRAP_METH_getitem s = Inl e \<Longrightarrow> e = KeyError s"
  by (auto simp: EXTRAP_METH_getitem_def split: if_splits)

lemma first_if_single_err: "first_if_single v = Inl e \<Longrightarrow> e = TypeError"
  by (auto simp: first_if_single_def split: list.splits if_splits)

lemma query_args_arity:
  "count_named (dims m) kwargs + length points \<noteq> ndim m \<Longrightarrow>
   query_args m points kwargs = Inl (AssertionError ''Not enough dimensions for interpolation'')"
  by (simp add: query_args_def)

lemma query_args_arity_only:
  assumes "count_named (dims m) kwargs + length points = ndim m"
  shows "query_args m points kwargs \<noteq> Inl (AssertionError ''Not enough dimensions for interpolation'')"
  using assms
  by (auto simp: query_args_def split: sum.splits if_splits
           dest: bind_args_err arg_lens_err conditioned_err)

lemma request_arity_only:
  assumes "count_named (dims m) kwargs + length points = ndim m"
  shows "interpolation_request m points interp extrap kwargs \<noteq>
           Inl (AssertionError ''Not enough dimensions for interpolation'')"
  using query_args_arity_only [OF assms]
  by (auto simp: interpolation_request_def split: sum.splits list.splits
        dest: NDTable_t_init_err INTERP_METH_getitem_err EXTRAP_METH_getitem_err)

lemma returned_not_arity:
  "returned a res \<noteq> Inl (AssertionError ''Not enough dimensions for interpolation'')"
  by (auto simp: returned_def dest: first_if_single_err)

text \<open>
  Claim C3. A call of \<open>interpolation\<close> or \<open>derivate\<close> fails on the arity assertion
  exactly when the number of positional arguments plus the number of keyword arguments
  naming a dimension differs from \<open>ndim\<close>. The failure does not depend on the native
  routine: it precedes every numeric step. When the count equals \<open>ndim\<close>, whatever the
  call returns is not this failure.
\<close>

theorem arity_mismatch_fails_first:
  "(interpolation eng m points interp extrap kwargs =
      Inl (AssertionError ''Not enough dimensions for interpolation''))
     = (count_named (dims m) kwargs + length points \<noteq> ndim m)
   \<and> (derivate deng m points interp extrap kwargs =
      Inl (AssertionError ''Not enough dimensions for interpolation''))
     = (count_named (dims m) kwargs + length points \<noteq> ndim m)"
proof (cases "count_named (dims m) kwargs + length points = ndim m")
  case True
  note q = request_arity_only [OF True, of interp extrap]
  have i: "interpolation eng m points interp extrap kwargs \<noteq>
      Inl (AssertionError ''Not enough dimensions for interpolation'')"
    using q by (auto simp: interpolation_def returned_not_arity split: sum.splits)
  have d: "derivate deng m points interp extrap kwargs \<noteq>
      Inl (AssertionError ''Not enough dimensions for interpolation'')"
    using q by (auto simp: derivate_def derivate_request_def returned_not_arity split: sum.splits)
  from True i d show ?thesis by simp
next
  case False
  then show ?thesis
    by (simp add: interpolation_def derivate_def derivate_request_def
          interpolation_request_def query_args_arity)
qed

theorem arity_mismatch_fails_first_witness:
  "count_named (dims grid2) Map.empty + length [Scalar 1] \<noteq> ndim grid2
   \<and> interpolation (\<lambda>rq. (0, \<lambda>j. 0)) grid2 [Scalar 1] ''linear'' ''hold'' Map.empty =
       Inl (AssertionError ''Not enough dimensions for interpolation'')
   \<and> derivate (\<lambda>rq dxi. (0, \<lambda>j. 0)) grid2 [Scalar 1] ''linear'' ''hold'' Map.empty =
       Inl (AssertionError ''Not enough dimensions for interpolation'')"
  using arity_mismatch_fails_first
    [of "\<lambda>rq. (0, \<lambda>j. 0)" grid2 "[Scalar 1]" "''linear''" "''hold''" Map.empty "\<lambda>rq dxi. (0, \<lambda>j. 0)"]
  by (simp add: grid2_def ndim_def count_named_def)

lemma query_args_bad_length:
  assumes "count_named (dims m) kwargs + length points = ndim m"
      and "bind_args (dims m) kwargs points [] = Inr args"
      and "arg_lens (map snd args) = Inr ls"
      and "\<exists>l \<in> set ls. l \<noteq> 1 \<and> l \<noteq> Max (set ls)"
  shows "query_args m points kwargs = Inl (AssertionError ''probleme'')"
proof -
  from assms(4) have ne: "ls \<noteq> []" by auto
  from assms(4) have bad: "\<not> list_all (\<lambda>d. d = Max (set ls) \<or> d = 1) ls"
    by (auto simp: list_all_iff)
  show ?thesis using assms(1,2,3) ne bad by (simp add: query_args_def)
qed

text \<open>
  Claim C4. In a call of the right arity, if some coordinate argument has a length that
  is neither 1 nor the maximum length among the arguments, \<open>interpolation\<close> and
  \<open>derivate\<close> fail on the length assertion, whatever the native routine: no output is
  produced.
\<close>

theorem length_mismatch_fails:
  assumes "count_named (dims m) kwargs + length points = ndim m"
      and "bind_args (dims m) kwargs points [] = Inr args"
      and "arg_lens (map snd args) = Inr ls"
      and "\<exists>l \<in> set ls. l \<noteq> 1 \<and> l \<noteq> Max (set ls)"
  shows "interpolation eng m points interp extrap kwargs = Inl (AssertionError ''probleme'')
       \<and> derivate deng m points interp extrap kwargs = Inl (AssertionError ''probleme'')"
  using query_args_bad_length [OF assms]
  by (simp add: interpolation_def derivate_def derivate_request_def interpolation_request_def)


theorem length_mismatch_fails_witness:
  "count_named (dims grid2) Map.empty
       + length [Arr (NDArray [2] [0, 1]), Arr (NDArray [3] [0, 1 / 2, 1])] = ndim grid2
   \<and> bind_args (dims grid2) Map.empty
         [Arr (NDArray [2] [0, 1]), Arr (NDArray [3] [0, 1 / 2, 1])] []
       = Inr [(''x'', Arr (NDArray [2] [0, 1])), (''y'', Arr (NDArray [3] [0, 1 / 2, 1]))]
   \<and> arg_lens (map snd [(''x'', Arr (NDArray [2] [0, 1])),
                        (''y'', Arr (NDArray [3] [0, 1 / 2, 1]))]) = Inr [2, 3]
   \<and> (\<exists>l \<in> set [2, 3 :: nat]. l \<noteq> 1 \<and> l \<noteq> Max (set [2, 3]))
   \<and> interpolation (\<lambda>rq. (0, \<lambda>j. 0)) grid2
         [Arr (NDArray [2] [0, 1]), Arr (NDArray [3] [0, 1 / 2, 1])]
         ''linear'' ''hold'' Map.empty = Inl (AssertionError ''probleme'')
   \<and> derivate (\<lambda>rq dxi. (0, \<lambda>j. 0)) grid2
         [Arr (NDArray [2] [0, 1]), Arr (NDArray [3] [0, 1 / 2, 1])]
         ''linear'' ''hold'' Map.empty = Inl (AssertionError ''probleme'')"
proof -
  let ?pts = "[Arr (NDArray [2] [0, 1]), Arr (NDArray [3] [0, 1 / 2, 1])]"
  let ?args = "[(''x'', Arr (NDArray [2] [0, 1])), (''y'', Arr (NDArray [3] [0, 1 / 2, 1]))]"
  have h1: "count_named (dims grid2) Map.empty + length ?pts = ndim grid2"
    by (simp add: grid2_def ndim_def count_named_def)
  have h2: "bind_args (dims grid2) Map.empty ?pts [] = Inr ?args"
    by (simp add: grid2_def)
  have h3: "arg_lens (map snd ?args) = Inr [2, 3]"
    by (simp add: arg_len_def pylen_def)
  have h4: "\<exists>l \<in> set [2, 3 :: nat]. l \<noteq> 1 \<and> l \<noteq> Max (set [2, 3])"
    by simp
  show ?thesis
    using length_mismatch_fails [OF h1 h2 h3 h4] h1 h2 h3 h4 by simp
qed

subsection \<open>The methods of a request\<close>

lemma request_methods:
  assumes "interpolation_request m points interp extrap kwargs = Inr rq"
  shows "INTERP_METH_getitem interp = Inr (interp_meth rq)
       \<and> EXTRAP_METH_getitem extrap = Inr (extrap_meth rq)"
  using assms
  by (auto simp: interpolation_request_def split: sum.splits list.splits)

lemma Mesh_init_options: "Mesh_init axes dat lab un named = Inr m \<Longrightarrow> options m = default_options"
  by (auto simp: Mesh_init_def DataArray_init_def Let_def split: if_splits pyval.splits)

lemmas eval_defs =
  interpolation_def interpolation_request_def derivate_def derivate_request_def
  query_args_def ndim_def count_named_def
  arg_len_def pylen_def as_float_array_def NDTable_t_init_def INTERP_METH_getitem_def
  EXTRAP_METH_getitem_def returned_def first_if_single_def size_nd_def ones_like_def
  default_options_def

lemmas spec_defs =
  evaluate_interpolation_spec_def is_cubic_def
  locate_def find_index_def fraction_def corner_weight_def Let_def

lemma grid1_linear:
  "interpolation (evaluate_interpolation_spec cubic) grid1 [Scalar (3 / 2)]
       ''linear'' ''hold'' Map.empty = Inr (Scalar (5 / 2))
   \<and> interpolation (evaluate_interpolation_spec cubic) grid1 [Scalar (3 / 2)]
       ''linear'' ''linear'' Map.empty = Inr (Scalar (5 / 2))
   \<and> interpolation (evaluate_interpolation_spec cubic) grid1 [Scalar 5]
       ''linear'' ''hold'' Map.empty = Inr (Scalar 9)
   \<and> interpolation (evaluate_interpolation_spec cubic) grid1 [Scalar 5]
       ''linear'' ''linear'' Map.empty = Inr (Scalar 19)"
  by (simp add: eval_defs spec_defs grid1_def)

lemma grid1_step_hold:
  "interpolation (evaluate_interpolation_spec cubic)
       (grid1\<lparr>options := default_options\<lparr>step := True\<rparr>\<rparr>) [Scalar (3 / 2)]
       ''hold'' ''hold'' Map.empty = Inr (Scalar 1)"
  by (simp add: eval_defs spec_defs grid1_def)

lemma Mesh_init_grid1:
  "Mesh_init [[0, 1, 2, 3]] (Arr (NDArray [4] [0, 1, 4, 9])) None None [] = Inr grid1"
  by (simp add: Mesh_init_def DataArray_init_def AXES_def grid1_def Let_def)

text \<open>
  Claim C8. A mesh keeps the constructor's options \<open>extrapolate = True\<close>, \<open>step = False\<close>.
  With \<open>extrapolate\<close> set and \<open>step\<close> clear, calling the mesh without \<open>extrap\<close> is
  \<open>interpolation\<close> with \<open>extrap = 'linear'\<close> (and the caller's \<open>interp\<close>, else
  \<open>'linear'\<close>): every request then carries linear extrapolation. \<open>interpolation\<close>
  itself, called without \<open>interp\<close> and \<open>extrap\<close>, requests linear interpolation with
  hold extrapolation.
\<close>

theorem call_extrapolates_linearly_by_default:
  "(extrapolate (options m) \<and> \<not> step (options m) \<and> kw_extrap kwargs = None \<longrightarrow>
      Mesh_call eng m pargs kwargs =
        interpolation eng m pargs (case kw_interp kwargs of None \<Rightarrow> ''linear'' | Some i \<Rightarrow> i)
          ''linear'' (kw_named kwargs)
      \<and> (\<forall>i rq. interpolation_request m pargs i ''linear'' (kw_named kwargs) = Inr rq
            \<longrightarrow> extrap_meth rq = E_linear))
   \<and> (Mesh_init axes dat lab un named = Inr m' \<longrightarrow>
        extrapolate (options m') \<and> \<not> step (options m'))
   \<and> (kw_interp kwargs = None \<and> kw_extrap kwargs = None \<longrightarrow>
        interpolation_kw eng m pargs kwargs =
          interpolation eng m pargs ''linear'' ''hold'' (kw_named kwargs)
        \<and> (\<forall>rq. interpolation_request m pargs ''linear'' ''hold'' (kw_named kwargs) = Inr rq
              \<longrightarrow> interp_meth rq = I_linear \<and> extrap_meth rq = E_hold))"
proof (intro conjI impI allI)
  assume "extrapolate (options m) \<and> \<not> step (options m) \<and> kw_extrap kwargs = None"
  then show "Mesh_call eng m pargs kwargs =
        interpolation eng m pargs (case kw_interp kwargs of None \<Rightarrow> ''linear'' | Some i \<Rightarrow> i)
          ''linear'' (kw_named kwargs)"
    by (simp add: Mesh_call_def interpolation_kw_def)
next
  fix i rq
  assume "interpolation_request m pargs i ''linear'' (kw_named kwargs) = Inr rq"
  from request_methods [OF this] show "extrap_meth rq = E_linear"
    by (simp add: EXTRAP_METH_getitem_def)
next
  assume "Mesh_init axes dat lab un named = Inr m'"
  from Mesh_init_options [OF this] show "extrapolate (options m')"
    by (simp add: default_options_def)
next
  assume "Mesh_init axes dat lab un named = Inr m'"
  from Mesh_init_options [OF this] show "\<not> step (options m')"
    by (simp add: default_options_def)
next
  assume "kw_interp kwargs = None \<and> kw_extrap kwargs = None"
  then show "interpolation_kw eng m pargs kwargs =
          interpolation eng m pargs ''linear'' ''hold'' (kw_named kwargs)"
    by (simp add: interpolation_kw_def)
next
  fix rq
  assume "interpolation_request m pargs ''linear'' ''hold'' (kw_named kwargs) = Inr rq"
  from request_methods [OF this] show "interp_meth rq = I_linear"
    by (simp add: INTERP_METH_getitem_def)
next
  fix rq
  assume "interpolation_request m pargs ''linear'' ''hold'' (kw_named kwargs) = Inr rq"
  from request_methods [OF this] show "extrap_meth rq = E_hold"
    by (simp add: EXTRAP_METH_getitem_def)
qed

theorem call_extrapolates_linearly_by_default_witness:
  "(extrapolate (options grid1) \<and> \<not> step (options grid1)
      \<and> kw_extrap \<lparr>kw_interp = None, kw_extrap = None, kw_named = Map.empty\<rparr> = None)
   \<and> Mesh_call (evaluate_interpolation_spec (\<lambda>rq. (1, \<lambda>j. 0))) grid1 [Scalar 5]
        \<lparr>kw_interp = None, kw_extrap = None, kw_named = Map.empty\<rparr> = Inr (Scalar 19)
   \<and> Mesh_init [[0, 1, 2, 3]] (Arr (NDArray [4] [0, 1, 4, 9])) None None [] = Inr grid1
   \<and> extrapolate (options grid1) \<and> \<not> step (options grid1)
   \<and> interpolation_kw (evaluate_interpolation_spec (\<lambda>rq. (1, \<lambda>j. 0))) grid1 [Scalar 5]
        \<lparr>kw_interp = None, kw_extrap = None, kw_named = Map.empty\<rparr> = Inr (Scalar 9)"
proof -
  have h1: "extrapolate (options grid1) \<and> \<not> step (options grid1)
      \<and> kw_extrap \<lparr>kw_interp = None, kw_extrap = None, kw_named = Map.empty\<rparr> = None"
    by (simp add: grid1_def default_options_def)
  note t = call_extrapolates_linearly_by_default
    [where m = grid1 and m' = grid1
       and kwargs = "\<lparr>kw_interp = None, kw_extrap = None, kw_named = Map.empty\<rparr>"
       and eng = "evaluate_interpolation_spec (\<lambda>rq. (1, \<lambda>j. 0))"
       and pargs = "[Scalar 5]" and axes = "[[0, 1, 2, 3]]"
       and dat = "Arr (NDArray [4] [0, 1, 4, 9])" and lab = None and un = None and named = "[]"]
  from t h1 Mesh_init_grid1 grid1_linear [of "\<lambda>rq. (1, \<lambda>j. 0)"]
  show ?thesis by simp
qed

text \<open>
  Claim C10. With \<open>step\<close> set, calling the mesh is \<open>interpolation\<close> with
  \<open>interp = 'hold'\<close> and \<open>extrap = 'hold'\<close>: the result does not depend on the
  \<open>interp\<close> and \<open>extrap\<close> the caller passed, and every request carries hold
  interpolation and hold extrapolation.
\<close>

theorem step_forces_hold:
  assumes "step (options m)"
  shows "Mesh_call eng m pargs kwargs =
           interpolation eng m pargs ''hold'' ''hold'' (kw_named kwargs)
       \<and> Mesh_call eng m pargs (kwargs\<lparr>kw_interp := i, kw_extrap := e\<rparr>) =
           Mesh_call eng m pargs kwargs
       \<and> (\<forall>rq. interpolation_request m pargs ''hold'' ''hold'' (kw_named kwargs) = Inr rq
             \<longrightarrow> interp_meth rq = I_hold \<and> extrap_meth rq = E_hold)"
proof (intro conjI allI impI)
  show "Mesh_call eng m pargs kwargs =
           interpolation eng m pargs ''hold'' ''hold'' (kw_named kwargs)"
    using assms by (simp add: Mesh_call_def interpolation_kw_def)
  show "Mesh_call eng m pargs (kwargs\<lparr>kw_interp := i, kw_extrap := e\<rparr>) =
           Mesh_call eng m pargs kwargs"
    using assms by (simp add: Mesh_call_def interpolation_kw_def)
next
  fix rq
  assume "interpolation_request m pargs ''hold'' ''hold'' (kw_named kwargs) = Inr rq"
  from request_methods [OF this] show "interp_meth rq = I_hold"
    by (simp add: INTERP_METH_getitem_def)
next
  fix rq
  assume "interpolation_request m pargs ''hold'' ''hold'' (kw_named kwargs) = Inr rq"
  from request_methods [OF this] show "extrap_meth rq = E_hold"
    by (simp add: EXTRAP_METH_getitem_def)
qed

theorem step_forces_hold_witness:
  "step (options (grid1\<lparr>options := default_options\<lparr>step := True\<rparr>\<rparr>))
   \<and> Mesh_call (evaluate_interpolation_spec (\<lambda>rq. (1, \<lambda>j. 0)))
        (grid1\<lparr>options := default_options\<lparr>step := True\<rparr>\<rparr>) [Scalar (3 / 2)]
        \<lparr>kw_interp = Some ''akima'', kw_extrap = Some ''linear'', kw_named = Map.empty\<rparr>
       = Inr (Scalar 1)"
proof -
  have h: "step (options (grid1\<lparr>options := default_options\<lparr>step := True\<rparr>\<rparr>))"
    by simp
  from step_forces_hold [OF h, of "evaluate_interpolation_spec (\<lambda>rq. (1, \<lambda>j. 0))"
      "[Scalar (3 / 2)]"
      "\<lparr>kw_interp = Some ''akima'', kw_extrap = Some ''linear'', kw_named = Map.empty\<rparr>"]
    grid1_step_hold [of "\<lambda>rq. (1, \<lambda>j. 0)"] h
  show ?thesis by simp
qed

subsection \<open>Requests on the two-dimensional grid\<close>

lemma request_short_first:
  "interpolation_request grid2 [Arr (NDArray [1] [1 / 2]), Arr (NDArray [3] [0, 1 / 2, 1])]
       ''linear'' ''hold'' Map.empty =
     Inr \<lparr>table = \<lparr>t_shape = [2, 2], t_strides = [16, 8], t_ndim = 2, t_data = [0, 1, 2, 3],
                    t_size = 4, t_itemsize = 8, t_breakpoints = [[0, 1], [0, 1]]\<rparr>,
          params = [NDArray [1] [1 / 2], NDArray [3] [0, 1 / 2, 1]],
          r_ndim = 2, interp_meth = I_linear, extrap_meth = E_hold, nvalues = 1\<rparr>"
  by (simp add: eval_defs grid2_def numeral_3_eq_3)

lemma request_short_second:
  "interpolation_request grid2 [Arr (NDArray [3] [0, 1 / 2, 1]), Arr (NDArray [1] [1 / 2])]
       ''linear'' ''hold'' Map.empty =
     Inr \<lparr>table = \<lparr>t_shape = [2, 2], t_strides = [16, 8], t_ndim = 2, t_data = [0, 1, 2, 3],
                    t_size = 4, t_itemsize = 8, t_breakpoints = [[0, 1], [0, 1]]\<rparr>,
          params = [NDArray [3] [0, 1 / 2, 1], NDArray [1] [1 / 2]],
          r_ndim = 2, interp_meth = I_linear, extrap_meth = E_hold, nvalues = 3\<rparr>"
  by (simp add: eval_defs grid2_def numeral_3_eq_3)

lemma request_scalar_first:
  "interpolation_request grid2 [Scalar (1 / 2), Arr (NDArray [3] [0, 1 / 2, 1])]
       ''linear'' ''hold'' Map.empty =
     Inr \<lparr>table = \<lparr>t_shape = [2, 2], t_strides = [16, 8], t_ndim = 2, t_data = [0, 1, 2, 3],
                    t_size = 4, t_itemsize = 8, t_breakpoints = [[0, 1], [0, 1]]\<rparr>,
          params = [NDArray [3] [1 / 2, 1 / 2, 1 / 2], NDArray [3] [0, 1 / 2, 1]],
          r_ndim = 2, interp_meth = I_linear, extrap_meth = E_hold, nvalues = 3\<rparr>"
  by (simp add: eval_defs grid2_def numeral_3_eq_3)

subsection \<open>The scenario on the samples of the square\<close>

text \<open>
  Claim C2. On the grid with breakpoints \<open>[0,1,2,3]\<close> and data \<open>[0,1,4,9]\<close>, with the
  evaluation routine of the specification: linear interpolation at 1.5 gives 2.5 under
  either extrapolation; at 5, hold extrapolation gives 9 and linear extrapolation gives
  19.
\<close>

theorem square_samples_scenario:
  "interpolation (evaluate_interpolation_spec cubic) grid1 [Scalar (3 / 2)]
       ''linear'' ''hold'' Map.empty = Inr (Scalar (5 / 2))
   \<and> interpolation (evaluate_interpolation_spec cubic) grid1 [Scalar (3 / 2)]
       ''linear'' ''linear'' Map.empty = Inr (Scalar (5 / 2))
   \<and> interpolation (evaluate_interpolation_spec cubic) grid1 [Scalar 5]
       ''linear'' ''hold'' Map.empty = Inr (Scalar 9)
   \<and> interpolation (evaluate_interpolation_spec cubic) grid1 [Scalar 5]
       ''linear'' ''linear'' Map.empty = Inr (Scalar 19)"
  by (rule grid1_linear)

subsection \<open>Arrays of length one\<close>

text \<open>
  Claim C1. On the two-dimensional grid, an array of length 1 given together with an array of
  length 3 reaches the native routine with its single entry, in either position; the
  number of values requested is the size of the first argument (1, or 3). A bare number
  in the same place is replicated to length 3.
\<close>

theorem length_one_array_not_replicated:
  "interpolation_request grid2 [Arr (NDArray [1] [1 / 2]), Arr (NDArray [3] [0, 1 / 2, 1])]
       ''linear'' ''hold'' Map.empty =
     Inr \<lparr>table = \<lparr>t_shape = [2, 2], t_strides = [16, 8], t_ndim = 2, t_data = [0, 1, 2, 3],
                    t_size = 4, t_itemsize = 8, t_breakpoints = [[0, 1], [0, 1]]\<rparr>,
          params = [NDArray [1] [1 / 2], NDArray [3] [0, 1 / 2, 1]],
          r_ndim = 2, interp_meth = I_linear, extrap_meth = E_hold, nvalues = 1\<rparr>
   \<and> interpolation_request grid2 [Arr (NDArray [3] [0, 1 / 2, 1]), Arr (NDArray [1] [1 / 2])]
       ''linear'' ''hold'' Map.empty =
     Inr \<lparr>table = \<lparr>t_shape = [2, 2], t_strides = [16, 8], t_ndim = 2, t_data = [0, 1, 2, 3],
                    t_size = 4, t_itemsize = 8, t_breakpoints = [[0, 1], [0, 1]]\<rparr>,
          params = [NDArray [3] [0, 1 / 2, 1], NDArray [1] [1 / 2]],
          r_ndim = 2, interp_meth = I_linear, extrap_meth = E_hold, nvalues = 3\<rparr>
   \<and> interpolation_request grid2 [Scalar (1 / 2), Arr (NDArray [3] [0, 1 / 2, 1])]
       ''linear'' ''hold'' Map.empty =
     Inr \<lparr>table = \<lparr>t_shape = [2, 2], t_strides = [16, 8], t_ndim = 2, t_data = [0, 1, 2, 3],
                    t_size = 4, t_itemsize = 8, t_breakpoints = [[0, 1], [0, 1]]\<rparr>,
          params = [NDArray [3] [1 / 2, 1 / 2, 1 / 2], NDArray [3] [0, 1 / 2, 1]],
          r_ndim = 2, interp_meth = I_linear, extrap_meth = E_hold, nvalues = 3\<rparr>"
  by (simp only: request_short_first request_short_second request_scalar_first simp_thms)

text \<open>
  Claim C7. On the two-dimensional grid, with an array of length 1 first and an array of
  length 3 second, \<open>interpolation\<close> and \<open>derivate\<close> return, when the native routine
  reports success, a single number: the output buffer has the shape of the first
  argument.
\<close>

theorem length_one_first_argument_gives_scalar:
  "interpolation eng grid2 [Arr (NDArray [1] [1 / 2]), Arr (NDArray [3] [0, 1 / 2, 1])]
       ''linear'' ''hold'' Map.empty =
     (let res = eng
        \<lparr>table = \<lparr>t_shape = [2, 2], t_strides = [16, 8], t_ndim = 2, t_data = [0, 1, 2, 3],
                    t_size = 4, t_itemsize = 8, t_breakpoints = [[0, 1], [0, 1]]\<rparr>,
          params = [NDArray [1] [1 / 2], NDArray [3] [0, 1 / 2, 1]],
          r_ndim = 2, interp_meth = I_linear, extrap_meth = E_hold, nvalues = 1\<rparr>
      in if fst res \<noteq> 0 then Inl (AssertionError ''An error occurred during interpolation'')
         else Inr (Scalar (snd res 0)))
   \<and> derivate deng grid2 [Arr (NDArray [1] [1 / 2]), Arr (NDArray [3] [0, 1 / 2, 1])]
       ''linear'' ''hold'' Map.empty =
     (let res = deng
        \<lparr>table = \<lparr>t_shape = [2, 2], t_strides = [16, 8], t_ndim = 2, t_data = [0, 1, 2, 3],
                    t_size = 4, t_itemsize = 8, t_breakpoints = [[0, 1], [0, 1]]\<rparr>,
          params = [NDArray [1] [1 / 2], NDArray [3] [0, 1 / 2, 1]],
          r_ndim = 2, interp_meth = I_linear, extrap_meth = E_hold, nvalues = 1\<rparr>
        [NDArray [1] [1], NDArray [3] [1, 1, 1]]
      in if fst res \<noteq> 0 then Inl (AssertionError ''An error occurred during interpolation'')
         else Inr (Scalar (snd res 0)))"
  apply (simp only: interpolation_def derivate_def derivate_request_def request_short_first)
  apply (simp add: returned_def first_if_single_def size_nd_def ones_like_def Let_def numeral_3_eq_3)
  done

text \<open>
  Claim C9. On the two-dimensional grid, with an array of length 3 first and an array of
  length 1 second, \<open>derivate\<close> asks the native routine for 3 values and hands it the
  step arrays \<open>[1, 1, 1]\<close> and \<open>[1]\<close>: the second dimension has a single step for the
  three query points.
\<close>

theorem short_array_gets_one_step:
  "derivate deng grid2 [Arr (NDArray [3] [0, 1 / 2, 1]), Arr (NDArray [1] [1 / 2])]
       ''linear'' ''hold'' Map.empty =
     (let res = deng
        \<lparr>table = \<lparr>t_shape = [2, 2], t_strides = [16, 8], t_ndim = 2, t_data = [0, 1, 2, 3],
                    t_size = 4, t_itemsize = 8, t_breakpoints = [[0, 1], [0, 1]]\<rparr>,
          params = [NDArray [3] [0, 1 / 2, 1], NDArray [1] [1 / 2]],
          r_ndim = 2, interp_meth = I_linear, extrap_meth = E_hold, nvalues = 3\<rparr>
        [NDArray [3] [1, 1, 1], NDArray [1] [1]]
      in if fst res \<noteq> 0 then Inl (AssertionError ''An error occurred during interpolation'')
         else Inr (Arr (NDArray [3] [snd res 0, snd res 1, snd res 2])))"
  apply (simp only: derivate_def derivate_request_def request_short_second)
  apply (simp add: returned_def first_if_single_def size_nd_def ones_like_def Let_def
           numeral_2_eq_2 numeral_3_eq_3 upt_rec)
  done

subsection \<open>Resampling\<close>

lemma request_single_row:
  "interpolation_request grid_row
       (map Arr [NDArray [1, 3] [1, 1, 1], NDArray [1, 3] [1, 2, 3]])
       ''linear'' ''hold'' Map.empty =
     Inr \<lparr>table = \<lparr>t_shape = [1, 3], t_strides = [24, 8], t_ndim = 2, t_data = [10, 20, 30],
                    t_size = 3, t_itemsize = 8, t_breakpoints = [[1], [1, 2, 3]]\<rparr>,
          params = [NDArray [1, 3] [1, 1, 1], NDArray [1, 3] [1, 2, 3]],
          r_ndim = 2, interp_meth = I_linear, extrap_meth = E_hold, nvalues = 3\<rparr>"
  by (simp add: eval_defs grid_row_def numeral_3_eq_3)

lemma resample_args_single_row:
  "resample_args grid_row (dims grid_row) Map.empty [] [] =
     Inr [(''x'', [1]), (''y'', [1, 2, 3])]"
  by (simp add: grid_row_def)

lemma meshgrid_single_row:
  "meshgrid_ij (map snd [(''x'', [1]), (''y'', [1, 2, 3])]) =
     [NDArray [1, 3] [1, 1, 1], NDArray [1, 3] [1, 2, 3]]"
  by (simp add: meshgrid_ij_def upt_rec numeral_2_eq_2 [symmetric])

text \<open>
  Claim C5. On the grid with the single row \<open>x = [1]\<close>, \<open>y = [1,2,3]\<close>, \<open>resample\<close>
  without new coordinates raises for every native routine: when the routine succeeds,
  the interpolated array of shape \<open>(1, 3)\<close> is returned as its first row, of shape
  \<open>(3,)\<close>, which the constructor rejects against two dimensions.
\<close>

theorem resample_single_row_raises:
  "resample eng grid_row [] ''linear'' ''hold'' Map.empty =
     (let res = eng
        \<lparr>table = \<lparr>t_shape = [1, 3], t_strides = [24, 8], t_ndim = 2, t_data = [10, 20, 30],
                    t_size = 3, t_itemsize = 8, t_breakpoints = [[1], [1, 2, 3]]\<rparr>,
          params = [NDArray [1, 3] [1, 1, 1], NDArray [1, 3] [1, 2, 3]],
          r_ndim = 2, interp_meth = I_linear, extrap_meth = E_hold, nvalues = 3\<rparr>
      in if fst res \<noteq> 0 then Inl (AssertionError ''An error occurred during interpolation'')
         else Inl ValueError)"
  apply (simp only: resample_def resample_args_single_row)
  apply (simp only: sum.case meshgrid_single_row)
  apply (simp only: interpolation_def request_single_row)
  apply (simp add: returned_def first_if_single_def size_nd_def
           Mesh_init_def DataArray_init_def AXES_def Let_def numeral_3_eq_3)
  done

lemma resample_args_yx:
  "resample_args grid_yx (dims grid_yx) Map.empty [] [] =
     Inr [(''y'', [0, 1]), (''x'', [10, 20])]"
  by (simp add: grid_yx_def)

lemma meshgrid_yx:
  "meshgrid_ij (map snd [(''y'', [0, 1]), (''x'', [10, 20 :: real])]) =
     [NDArray [2, 2] [0, 0, 1, 1], NDArray [2, 2] [10, 20, 10, 20]]"
  by (simp add: meshgrid_ij_def upt_rec numeral_2_eq_2 [symmetric])

lemma request_yx:
  "interpolation_request grid_yx
       (map Arr [NDArray [2, 2] [0, 0, 1, 1], NDArray [2, 2] [10, 20, 10, 20]])
       ''linear'' ''hold'' Map.empty =
     Inr \<lparr>table = \<lparr>t_shape = [2, 2], t_strides = [16, 8], t_ndim = 2, t_data = [0, 1, 2, 3],
                    t_size = 4, t_itemsize = 8, t_breakpoints = [[0, 1], [10, 20]]\<rparr>,
          params = [NDArray [2, 2] [0, 0, 1, 1], NDArray [2, 2] [10, 20, 10, 20]],
          r_ndim = 2, interp_meth = I_linear, extrap_meth = E_hold, nvalues = 4\<rparr>"
  by (simp add: eval_defs grid_yx_def)

lemma resample_yx:
  "resample eng grid_yx [] ''linear'' ''hold'' Map.empty =
     (let res = eng
        \<lparr>table = \<lparr>t_shape = [2, 2], t_strides = [16, 8], t_ndim = 2, t_data = [0, 1, 2, 3],
                    t_size = 4, t_itemsize = 8, t_breakpoints = [[0, 1], [10, 20]]\<rparr>,
          params = [NDArray [2, 2] [0, 0, 1, 1], NDArray [2, 2] [10, 20, 10, 20]],
          r_ndim = 2, interp_meth = I_linear, extrap_meth = E_hold, nvalues = 4\<rparr>
      in if fst res \<noteq> 0 then Inl (AssertionError ''An error occurred during interpolation'')
         else Inr \<lparr>dims = [''x'', ''y''], coords = [(''x'', [10, 20]), (''y'', [0, 1])],
                   data = NDArray [2, 2] [snd res 0, snd res 1, snd res 2, snd res 3],
                   label = None, unit = None, options = default_options\<rparr>)"
  apply (simp only: resample_def resample_args_yx)
  apply (simp only: sum.case meshgrid_yx)
  apply (simp only: interpolation_def request_yx)
  apply (simp add: returned_def first_if_single_def size_nd_def
           Mesh_init_def DataArray_init_def AXES_def Let_def upt_rec
           numeral_2_eq_2 numeral_3_eq_3)
  done

lemma query_yx:
  "interpolation (evaluate_interpolation_spec cubic) grid_yx [] ''linear'' ''hold''
       [''x'' \<mapsto> Scalar 20, ''y'' \<mapsto> Scalar 0] = Inr (Scalar 1)"
  by (simp add: eval_defs spec_defs grid_yx_def)

lemma resample_yx_spec:
  "resample (evaluate_interpolation_spec cubic) grid_yx [] ''linear'' ''hold'' Map.empty =
     Inr \<lparr>dims = [''x'', ''y''], coords = [(''x'', [10, 20]), (''y'', [0, 1])],
          data = NDArray [2, 2] [0, 1, 2, 3],
          label = None, unit = None, options = default_options\<rparr>"
  apply (simp only: resample_yx)
  apply (simp add: spec_defs upt_rec nth_Cons' numeral_2_eq_2 [symmetric])
  done

lemma query_resampled_yx:
  "interpolation (evaluate_interpolation_spec cubic)
       \<lparr>dims = [''x'', ''y''], coords = [(''x'', [10, 20]), (''y'', [0, 1])],
        data = NDArray [2, 2] [0, 1, 2, 3],
        label = None, unit = None, options = default_options\<rparr>
       [] ''linear'' ''hold'' [''x'' \<mapsto> Scalar 20, ''y'' \<mapsto> Scalar 0] = Inr (Scalar 2)"
  by (simp add: eval_defs spec_defs)

text \<open>
  Claim C6. On the grid with the dimensions \<open>(y, x)\<close>, \<open>resample\<close> without new
  coordinates asks the native routine for the values on the product of the \<open>y\<close> and
  \<open>x\<close> breakpoints, in that order, and stores them, in that order, in a mesh whose
  dimensions the constructor has sorted to \<open>(x, y)\<close>. With the evaluation routine of
  the specification the grid gives 1 at \<open>x = 20\<close>, \<open>y = 0\<close>, and the resampled grid
  gives 2 there.
\<close>

theorem resample_reorders_axes:
  "resample eng grid_yx [] ''linear'' ''hold'' Map.empty =
     (let res = eng
        \<lparr>table = \<lparr>t_shape = [2, 2], t_strides = [16, 8], t_ndim = 2, t_data = [0, 1, 2, 3],
                    t_size = 4, t_itemsize = 8, t_breakpoints = [[0, 1], [10, 20]]\<rparr>,
          params = [NDArray [2, 2] [0, 0, 1, 1], NDArray [2, 2] [10, 20, 10, 20]],
          r_ndim = 2, interp_meth = I_linear, extrap_meth = E_hold, nvalues = 4\<rparr>
      in if fst res \<noteq> 0 then Inl (AssertionError ''An error occurred during interpolation'')
         else Inr \<lparr>dims = [''x'', ''y''], coords = [(''x'', [10, 20]), (''y'', [0, 1])],
                   data = NDArray [2, 2] [snd res 0, snd res 1, snd res 2, snd res 3],
                   label = None, unit = None, options = default_options\<rparr>)
   \<and> interpolation (evaluate_interpolation_spec cubic) grid_yx [] ''linear'' ''hold''
       [''x'' \<mapsto> Scalar 20, ''y'' \<mapsto> Scalar 0] = Inr (Scalar 1)
   \<and> resample (evaluate_interpolation_spec cubic) grid_yx [] ''linear'' ''hold'' Map.empty =
     Inr \<lparr>dims = [''x'', ''y''], coords = [(''x'', [10, 20]), (''y'', [0, 1])],
          data = NDArray [2, 2] [0, 1, 2, 3],
          label = None, unit = None, options = default_options\<rparr>
   \<and> interpolation (evaluate_interpolation_spec cubic)
       \<lparr>dims = [''x'', ''y''], coords = [(''x'', [10, 20]), (''y'', [0, 1])],
          data = NDArray [2, 2] [0, 1, 2, 3],
          label = None, unit = None, options = default_options\<rparr>
       [] ''linear'' ''hold'' [''x'' \<mapsto> Scalar 20, ''y'' \<mapsto> Scalar 0] = Inr (Scalar 2)"
  by (intro conjI) (rule resample_yx, rule query_yx, rule resample_yx_spec, rule query_resampled_yx)

end
